theory Spec2Isabelle
  imports Main "HOL-Library.Sublist"
begin

section \<open>Data model\<close>

text \<open>
  The service of \<^verbatim>\<open>src/unnamed/part_001\<close> (the version with the YouTube special case).
  Go strings are byte sequences, here \<^typ>\<open>string\<close>; a nil slice and an empty slice are
  both the empty list.
\<close>

record Metadata =
  URL :: string
  PageName :: string
  Title :: string
  Description :: string
  Images :: "string list"

record oEmbedResponse =
  oe_Title :: string
  oe_AuthorName :: string
  oe_ThumbnailURL :: string
  oe_Provider :: string

record thumbnail =
  thumb_URL :: string

record snippet =
  snip_Title :: string
  snip_Description :: string
  snip_ChannelTitle :: string
  snip_Thumbnails :: "string \<rightharpoonup> thumbnail"

record item =
  Snippet :: snippet

record youtubeAPIResponse =
  Items :: "item list"

text \<open>The fields of Go's \<^verbatim>\<open>url.URL\<close>; the handler itself reads \<^verbatim>\<open>Host\<close> and \<^verbatim>\<open>Path\<close>.\<close>

record url =
  Scheme :: string
  Opaque :: string
  User :: "(string \<times> string option) option"
  Host :: string
  Path :: string
  RawPath :: string
  OmitHost :: bool
  ForceQuery :: bool
  RawQuery :: string
  Fragment :: string
  RawFragment :: string

text \<open>A parsed HTML document: the node tree of \<^verbatim>\<open>golang.org/x/net/html\<close>.\<close>

datatype node =
    TextNode string
  | ElementNode string "(string \<times> string) list" "node list"
  | CommentNode string

text \<open>The two shapes of selector the handler uses: \<^verbatim>\<open>tag\<close> and \<^verbatim>\<open>tag[key='val']\<close>.\<close>

datatype selector = Tag string | TagAttr string string string

text \<open>
  Outbound calls, one constructor per call site, each carrying the URL handed to the HTTP
  client. An entry marks that the handler called \<^verbatim>\<open>client.Get\<close> (the two provider clients)
  or \<^verbatim>\<open>client.Do\<close> (the generic fetch) with that URL; it does not say that a request went
  on the wire, which is the client's own decision (\<^verbatim>\<open>client.Get\<close> builds its request first
  and returns an error, sending nothing, when it rejects the URL). The state threaded
  through the handler is the list of the calls made so far.
\<close>

datatype outbound = OEmbedGet string | DataAPIGet string | GenericGet string

datatype http_result = TransportError | Response int string

datatype error = OEmbedError | YouTubeAPIError | DecodeError | NoVideoFound string

datatype body = ErrorJSON string | MetadataJSON Metadata

type_synonym response = "int \<times> body"

text \<open>
  Everything the handler calls outside this repository: \<^verbatim>\<open>net/url\<close>, \<^verbatim>\<open>net/http\<close> with
  the network behind it, \<^verbatim>\<open>encoding/json\<close> and the HTML parser. The theorems hold for every
  value of this record. A failing call is \<open>None\<close> (or \<open>False\<close>, or \<open>TransportError\<close>).
  \<open>http_Do\<close> is the outcome of one call of \<^verbatim>\<open>client.Get\<close> or \<^verbatim>\<open>client.Do\<close> as a whole:
  \<open>TransportError\<close> stands for every error the client returns, a URL it refuses included.
\<close>

record lib =
  url_ParseRequestURI :: "string \<Rightarrow> url option"
  url_Parse :: "string \<Rightarrow> url option"
  url_String :: "url \<Rightarrow> string"
  url_Hostname :: "url \<Rightarrow> string"
  url_Query_Get :: "url \<Rightarrow> string \<Rightarrow> string"
  url_ResolveReference :: "url \<Rightarrow> url \<Rightarrow> url"
  url_QueryEscape :: "string \<Rightarrow> string"
  http_NewRequest :: "string \<Rightarrow> bool"
  http_Do :: "outbound \<Rightarrow> http_result"
  json_Decode_oEmbed :: "string \<Rightarrow> oEmbedResponse option"
  json_Decode_youtube :: "string \<Rightarrow> youtubeAPIResponse option"
  goquery_NewDocumentFromReader :: "string \<Rightarrow> node list option"

section \<open>String helpers of package strings\<close>

fun Contains :: "string \<Rightarrow> string \<Rightarrow> bool" where
  "Contains [] substr = (substr = [])"
| "Contains (c # cs) substr = (prefix substr (c # cs) \<or> Contains cs substr)"

definition TrimPrefix :: "string \<Rightarrow> string \<Rightarrow> string" where
  "TrimPrefix s p = (if prefix p s then drop (length p) s else s)"

text \<open>
  \<^verbatim>\<open>strings.TrimSpace\<close> removes leading and trailing white space as Unicode defines it,
  reading the bytes as UTF-8: the six ASCII spaces and the encodings of U+0085, U+00A0,
  U+1680, U+2000 to U+200A, U+2028, U+2029, U+202F, U+205F and U+3000.
\<close>

definition spaceRunes :: "string list" where
  "spaceRunes =
    [[CHR 0x09], [CHR 0x0A], [CHR 0x0B], [CHR 0x0C], [CHR 0x0D], [CHR 0x20],
     [CHR 0xC2, CHR 0x85], [CHR 0xC2, CHR 0xA0],
     [CHR 0xE1, CHR 0x9A, CHR 0x80],
     [CHR 0xE2, CHR 0x80, CHR 0x80], [CHR 0xE2, CHR 0x80, CHR 0x81],
     [CHR 0xE2, CHR 0x80, CHR 0x82], [CHR 0xE2, CHR 0x80, CHR 0x83],
     [CHR 0xE2, CHR 0x80, CHR 0x84], [CHR 0xE2, CHR 0x80, CHR 0x85],
     [CHR 0xE2, CHR 0x80, CHR 0x86], [CHR 0xE2, CHR 0x80, CHR 0x87],
     [CHR 0xE2, CHR 0x80, CHR 0x88], [CHR 0xE2, CHR 0x80, CHR 0x89],
     [CHR 0xE2, CHR 0x80, CHR 0x8A],
     [CHR 0xE2, CHR 0x80, CHR 0xA8], [CHR 0xE2, CHR 0x80, CHR 0xA9],
     [CHR 0xE2, CHR 0x80, CHR 0xAF],
     [CHR 0xE2, CHR 0x81, CHR 0x9F],
     [CHR 0xE3, CHR 0x80, CHR 0x80]]"

text \<open>The number of bytes of the space rune that \<open>s\<close> starts with, 0 when there is none.\<close>

definition spaceWidth :: "string list \<Rightarrow> string \<Rightarrow> nat" where
  "spaceWidth runes s = (case find (\<lambda>e. prefix e s) runes of None \<Rightarrow> 0 | Some e \<Rightarrow> length e)"

fun trimLeading :: "string list \<Rightarrow> string \<Rightarrow> string" where
  "trimLeading runes [] = []"
| "trimLeading runes (c # cs) =
     (if spaceWidth runes (c # cs) = 0 then c # cs
      else trimLeading runes (drop (spaceWidth runes (c # cs) - 1) cs))"

definition TrimSpace :: "string \<Rightarrow> string" where
  "TrimSpace s = rev (trimLeading (map rev spaceRunes) (rev (trimLeading spaceRunes s)))"

section \<open>The selections of goquery\<close>

text \<open>
  A selection is the list of its nodes. \<^verbatim>\<open>Find\<close> on the document collects the matching
  elements in document order (a pre-order walk); an attribute condition holds when some
  attribute of the element has that key and that value.
\<close>

fun matches :: "selector \<Rightarrow> node \<Rightarrow> bool" where
  "matches (Tag t) (ElementNode d as cs) = (d = t)"
| "matches (TagAttr t k v) (ElementNode d as cs) = (d = t \<and> (k, v) \<in> set as)"
| "matches sel n = False"

fun matchAll :: "selector \<Rightarrow> node \<Rightarrow> node list" where
  "matchAll sel (ElementNode d as cs) =
     (if matches sel (ElementNode d as cs) then [ElementNode d as cs] else [])
       @ concat (map (matchAll sel) cs)"
| "matchAll sel n = []"

definition Find :: "node list \<Rightarrow> selector \<Rightarrow> node list" where
  "Find doc sel = concat (map (matchAll sel) doc)"

definition First :: "node list \<Rightarrow> node list" where
  "First s = take 1 s"

text \<open>\<^verbatim>\<open>Attr\<close> reads the first node of the selection and the first attribute of that key.\<close>

fun Attr :: "node list \<Rightarrow> string \<Rightarrow> string option" where
  "Attr [] name = None"
| "Attr (ElementNode d as cs # ns) name = map_of as name"
| "Attr (n # ns) name = None"

fun nodeText :: "node \<Rightarrow> string" where
  "nodeText (TextNode d) = d"
| "nodeText (ElementNode d as cs) = concat (map nodeText cs)"
| "nodeText (CommentNode d) = []"

definition Text :: "node list \<Rightarrow> string" where
  "Text s = concat (map nodeText s)"

section \<open>The functions of the service\<close>

definition isYouTubeURL :: "lib \<Rightarrow> url \<Rightarrow> bool" where
  "isYouTubeURL L u =
     (let h = url_Hostname L u in Contains h ''youtube.com'' \<or> Contains h ''youtu.be'')"

definition extractYouTubeID :: "lib \<Rightarrow> url \<Rightarrow> string" where
  "extractYouTubeID L u =
     (if Contains (Host u) ''youtu.be'' then TrimPrefix (Path u) ''/''
      else url_Query_Get L u ''v'')"

text \<open>The two \<^verbatim>\<open>fmt.Sprintf\<close> calls that build the provider URLs.\<close>

definition oeURL :: "lib \<Rightarrow> string \<Rightarrow> string" where
  "oeURL L videoURL =
     ''https://www.youtube.com/oembed?url='' @ url_QueryEscape L videoURL @ ''&format=json''"

definition apiURL :: "string \<Rightarrow> string \<Rightarrow> string" where
  "apiURL videoID apiKey =
     ''https://www.googleapis.com/youtube/v3/videos?part=snippet&id='' @ videoID
       @ ''&key='' @ apiKey"

definition fetchYouTubeOEmbed ::
  "lib \<Rightarrow> string \<Rightarrow> outbound list \<Rightarrow> (error + Metadata) \<times> outbound list" where
  "fetchYouTubeOEmbed L videoURL calls =
     (let calls' = calls @ [OEmbedGet (oeURL L videoURL)] in
      case http_Do L (OEmbedGet (oeURL L videoURL)) of
        TransportError \<Rightarrow> (Inl OEmbedError, calls')
      | Response code b \<Rightarrow>
          if code \<noteq> 200 then (Inl OEmbedError, calls')
          else (case json_Decode_oEmbed L b of
                  None \<Rightarrow> (Inl DecodeError, calls')
                | Some oe \<Rightarrow>
                    (Inr \<lparr>URL = videoURL, PageName = oe_Provider oe, Title = oe_Title oe,
                          Description = oe_AuthorName oe, Images = [oe_ThumbnailURL oe]\<rparr>,
                     calls')))"

definition fetchYouTubeDataAPI ::
  "lib \<Rightarrow> string \<Rightarrow> string \<Rightarrow> outbound list \<Rightarrow> (error + Metadata) \<times> outbound list" where
  "fetchYouTubeDataAPI L videoID apiKey calls =
     (let calls' = calls @ [DataAPIGet (apiURL videoID apiKey)] in
      case http_Do L (DataAPIGet (apiURL videoID apiKey)) of
        TransportError \<Rightarrow> (Inl YouTubeAPIError, calls')
      | Response code b \<Rightarrow>
          if code \<noteq> 200 then (Inl YouTubeAPIError, calls')
          else (case json_Decode_youtube L b of
                  None \<Rightarrow> (Inl DecodeError, calls')
                | Some data \<Rightarrow>
                    (case Items data of
                       [] \<Rightarrow> (Inl (NoVideoFound videoID), calls')
                     | it # its \<Rightarrow>
                         (let snip = Snippet it;
                              thumb = (case snip_Thumbnails snip ''high'' of
                                         None \<Rightarrow> '''' | Some t \<Rightarrow> thumb_URL t)
                          in (Inr \<lparr>URL = videoID, PageName = snip_ChannelTitle snip,
                                   Title = snip_Title snip,
                                   Description = snip_Description snip,
                                   Images = [thumb]\<rparr>,
                              calls')))))"

definition getFirstContent :: "node list \<Rightarrow> selector \<Rightarrow> string" where
  "getFirstContent doc sel =
     (case Attr (First (Find doc sel)) ''content'' of
        Some content \<Rightarrow> TrimSpace content
      | None \<Rightarrow> '''')"

text \<open>The two \<^verbatim>\<open>Each\<close> loops of the handler, appending to \<^verbatim>\<open>meta.Images\<close>.\<close>

fun eachOgImage :: "node list \<Rightarrow> string list \<Rightarrow> string list" where
  "eachOgImage [] images = images"
| "eachOgImage (s # ss) images =
     eachOgImage ss (case Attr [s] ''content'' of
                       Some img \<Rightarrow> images @ [img]
                     | None \<Rightarrow> images)"

fun eachImg :: "lib \<Rightarrow> url \<Rightarrow> node list \<Rightarrow> string list \<Rightarrow> string list" where
  "eachImg L parsedURL [] images = images"
| "eachImg L parsedURL (s # ss) images =
     eachImg L parsedURL ss
       (case Attr [s] ''src'' of
          Some src \<Rightarrow>
            (case url_Parse L src of
               Some u \<Rightarrow> images @ [url_String L (url_ResolveReference L parsedURL u)]
             | None \<Rightarrow> images)
        | None \<Rightarrow> images)"

text \<open>Lines 139 to 165 of the handler: the record built from the parsed document.\<close>

definition extractMetadata :: "lib \<Rightarrow> string \<Rightarrow> url \<Rightarrow> node list \<Rightarrow> Metadata" where
  "extractMetadata L rawURL parsedURL doc =
     (let pageName = getFirstContent doc (TagAttr ''meta'' ''property'' ''og:site_name'');
          pageName = (if pageName = '''' then Host parsedURL else pageName);
          title = getFirstContent doc (TagAttr ''meta'' ''property'' ''og:title'');
          title = (if title = '''' then TrimSpace (Text (Find doc (Tag ''title''))) else title);
          description = getFirstContent doc (TagAttr ''meta'' ''property'' ''og:description'');
          description = (if description = ''''
                         then getFirstContent doc (TagAttr ''meta'' ''name'' ''description'')
                         else description);
          images = eachOgImage (Find doc (TagAttr ''meta'' ''property'' ''og:image'')) [];
          images = (if length images = 0
                    then eachImg L parsedURL (Find doc (Tag ''img'')) images
                    else images)
      in \<lparr>URL = rawURL, PageName = pageName, Title = title, Description = description,
          Images = images\<rparr>)"

text \<open>Lines 115 to 167: the generic fetch and the extraction.\<close>

definition genericScrape ::
  "lib \<Rightarrow> string \<Rightarrow> url \<Rightarrow> outbound list \<Rightarrow> response \<times> outbound list" where
  "genericScrape L rawURL parsedURL calls =
     (let target = url_String L parsedURL in
      if \<not> http_NewRequest L target
      then ((500, ErrorJSON ''failed to create request''), calls)
      else
        (let calls' = calls @ [GenericGet target] in
         case http_Do L (GenericGet target) of
           TransportError \<Rightarrow> ((502, ErrorJSON ''failed to fetch target''), calls')
         | Response code b \<Rightarrow>
             if code < 200 \<or> code \<ge> 300
             then ((502, ErrorJSON ''failed to fetch target''), calls')
             else (case goquery_NewDocumentFromReader L b of
                     None \<Rightarrow> ((500, ErrorJSON ''failed to parse html''), calls')
                   | Some doc \<Rightarrow>
                       ((200, MetadataJSON (extractMetadata L rawURL parsedURL doc)),
                        calls'))))"

definition getMetadataHandler :: "lib \<Rightarrow> string \<Rightarrow> string \<Rightarrow> response \<times> outbound list" where
  "getMetadataHandler L ytAPIKey rawURL =
     (if rawURL = '''' then ((400, ErrorJSON ''missing url parameter''), [])
      else
        (case url_ParseRequestURI L rawURL of
           None \<Rightarrow> ((400, ErrorJSON ''invalid url''), [])
         | Some parsedURL \<Rightarrow>
             if isYouTubeURL L parsedURL then
               (case fetchYouTubeOEmbed L rawURL [] of
                  (Inr meta, calls) \<Rightarrow> ((200, MetadataJSON meta), calls)
                | (Inl err, calls) \<Rightarrow>
                    if ytAPIKey \<noteq> '''' then
                      (case fetchYouTubeDataAPI L (extractYouTubeID L parsedURL) ytAPIKey calls of
                         (Inr idMeta, calls') \<Rightarrow> ((200, MetadataJSON idMeta), calls')
                       | (Inl err', calls') \<Rightarrow> genericScrape L rawURL parsedURL calls')
                    else genericScrape L rawURL parsedURL calls)
             else genericScrape L rawURL parsedURL []))"

section \<open>Absolute URLs\<close>

text \<open>
  The notion of the specification's data model ("absolute image URLs"), not a function of
  the service: a string is an absolute URL when it starts with a scheme, a letter followed
  by letters, digits, \<open>+\<close>, \<open>-\<close> or \<open>.\<close>, then a colon (RFC 3986, section 4.3).
\<close>

definition absolute_url :: "string \<Rightarrow> bool" where
  "absolute_url s =
     (case takeWhile (\<lambda>c. c \<noteq> CHR '':'') s of
        [] \<Rightarrow> False
      | c # cs \<Rightarrow>
          c \<in> set ''abcdefghijklmnopqrstuvwxyzABCDEFGHIJKLMNOPQRSTUVWXYZ''
          \<and> list_all (\<lambda>d. d \<in> set ''abcdefghijklmnopqrstuvwxyzABCDEFGHIJKLMNOPQRSTUVWXYZ0123456789+-.'') cs
          \<and> length (c # cs) < length s)"

section \<open>Example data\<close>

text \<open>
  A small library for the concrete examples below. On the few inputs used it returns what
  Go's packages return there: \<^verbatim>\<open>url.ParseRequestURI\<close> accepts an absolute URI and also a
  bare absolute path such as \<^verbatim>\<open>/foo\<close> (host and scheme empty), \<^verbatim>\<open>url.Parse\<close> rejects the
  reference \<^verbatim>\<open>%zz\<close> (an invalid escape) and accepts the empty reference, and an
  absolute-path reference resolves to the base's scheme and host with the reference's path.
  The network answers and the parsed document are parameters.
\<close>

definition emptyURL :: url where
  "emptyURL = \<lparr>Scheme = '''', Opaque = '''', User = None, Host = '''', Path = '''',
     RawPath = '''', OmitHost = False, ForceQuery = False, RawQuery = '''', Fragment = '''',
     RawFragment = ''''\<rparr>"

definition pageURL :: url where
  "pageURL = emptyURL\<lparr>Scheme := ''https'', Host := ''x.test'', Path := ''/p''\<rparr>"

definition watchURL :: url where
  "watchURL = emptyURL\<lparr>Scheme := ''https'', Host := ''www.youtube.com'', Path := ''/watch'',
     RawQuery := ''v=abc''\<rparr>"

definition bareWatchURL :: url where
  "bareWatchURL = emptyURL\<lparr>Scheme := ''https'', Host := ''www.youtube.com'',
     Path := ''/watch''\<rparr>"

definition net :: "http_result \<Rightarrow> http_result \<Rightarrow> http_result \<Rightarrow> outbound \<Rightarrow> http_result" where
  "net oe api gen call =
     (case call of OEmbedGet u \<Rightarrow> oe | DataAPIGet u \<Rightarrow> api | GenericGet u \<Rightarrow> gen)"

definition sampleOEmbed :: oEmbedResponse where
  "sampleOEmbed = \<lparr>oe_Title = ''A video'', oe_AuthorName = ''An author'',
     oe_ThumbnailURL = ''https://i.ytimg.com/vi/abc/hqdefault.jpg'', oe_Provider = ''YouTube''\<rparr>"

definition sampleSnippet :: snippet where
  "sampleSnippet = \<lparr>snip_Title = ''A video'', snip_Description = ''About it'',
     snip_ChannelTitle = ''A channel'',
     snip_Thumbnails = [''default'' \<mapsto> \<lparr>thumb_URL = ''https://i.ytimg.com/vi/abc/default.jpg''\<rparr>,
                        ''high'' \<mapsto> \<lparr>thumb_URL = ''https://i.ytimg.com/vi/abc/hqdefault.jpg''\<rparr>]\<rparr>"

definition sampleLib :: "(outbound \<Rightarrow> http_result) \<Rightarrow> node list \<Rightarrow> lib" where
  "sampleLib network doc =
     \<lparr>url_ParseRequestURI = (\<lambda>s.
          if s = ''https://x.test/p'' then Some pageURL
          else if s = ''https://www.youtube.com/watch?v=abc'' then Some watchURL
          else if s = ''https://www.youtube.com/watch'' then Some bareWatchURL
          else if s = ''/foo'' then Some (emptyURL\<lparr>Path := ''/foo''\<rparr>)
          else None),
      url_Parse = (\<lambda>s.
          if s = '''' then Some emptyURL
          else if s = ''/a.png'' then Some (emptyURL\<lparr>Path := ''/a.png''\<rparr>)
          else if s = ''/b.png'' then Some (emptyURL\<lparr>Path := ''/b.png''\<rparr>)
          else None),
      url_String = (\<lambda>u.
          (if Scheme u = '''' then '''' else Scheme u @ '':'')
            @ (if Host u = '''' then '''' else ''//'' @ Host u)
            @ Path u
            @ (if RawQuery u = '''' then '''' else ''?'' @ RawQuery u)),
      url_Hostname = Host,
      url_Query_Get = (\<lambda>u k. if RawQuery u = ''v=abc'' \<and> k = ''v'' then ''abc'' else ''''),
      url_ResolveReference = (\<lambda>base ref.
          if Scheme ref = '''' \<and> Host ref = '''' \<and> prefix ''/'' (Path ref)
          then ref\<lparr>Scheme := Scheme base, Host := Host base\<rparr>
          else ref),
      url_QueryEscape = (\<lambda>s.
          if s = ''https://www.youtube.com/watch?v=abc''
          then ''https%3A%2F%2Fwww.youtube.com%2Fwatch%3Fv%3Dabc''
          else if s = ''https://www.youtube.com/watch''
          then ''https%3A%2F%2Fwww.youtube.com%2Fwatch''
          else s),
      http_NewRequest = (\<lambda>s. True),
      http_Do = network,
      json_Decode_oEmbed = (\<lambda>b.
          if b = ''{}'' then Some \<lparr>oe_Title = '''', oe_AuthorName = '''', oe_ThumbnailURL = '''',
                                    oe_Provider = ''''\<rparr>
          else if b = ''oembed.json'' then Some sampleOEmbed
          else None),
      json_Decode_youtube = (\<lambda>b.
          if b = ''{}'' then Some \<lparr>Items = []\<rparr>
          else if b = ''video.json'' then Some \<lparr>Items = [\<lparr>Snippet = sampleSnippet\<rparr>]\<rparr>
          else if b = ''nothumb.json''
          then Some \<lparr>Items = [\<lparr>Snippet = sampleSnippet\<lparr>snip_Thumbnails := Map.empty\<rparr>\<rparr>]\<rparr>
          else None),
      goquery_NewDocumentFromReader = (\<lambda>b. Some doc)\<rparr>"

text \<open>Parsed pages for the examples.\<close>

definition pageWithOgTitle :: "node list" where
  "pageWithOgTitle =
     [ElementNode ''html'' []
        [ElementNode ''head'' []
           [ElementNode ''meta'' [(''property'', ''og:title''), (''content'', '' Hi '')] [],
            ElementNode ''title'' [] [TextNode ''Plain title'']],
         ElementNode ''body'' [] []]]"

definition pageWithBlankOgTitle :: "node list" where
  "pageWithBlankOgTitle =
     [ElementNode ''html'' []
        [ElementNode ''head'' []
           [ElementNode ''meta'' [(''property'', ''og:title''), (''content'', '''')] [],
            ElementNode ''title'' [] [TextNode '' Hello '']],
         ElementNode ''body'' [] []]]"

definition pageWithImgs :: "node list" where
  "pageWithImgs =
     [ElementNode ''html'' []
        [ElementNode ''head'' [] [ElementNode ''title'' [] [TextNode ''Pictures'']],
         ElementNode ''body'' []
           [ElementNode ''img'' [(''src'', ''/a.png'')] [],
            ElementNode ''p'' [] [TextNode ''text'', ElementNode ''img'' [(''alt'', ''none'')] []],
            ElementNode ''img'' [(''src'', ''/b.png'')] []]]]"

definition pageWithBadImg :: "node list" where
  "pageWithBadImg =
     [ElementNode ''html'' []
        [ElementNode ''head'' [] [],
         ElementNode ''body'' [] [ElementNode ''img'' [(''src'', ''%zz'')] []]]]"

definition pageWithOgImages :: "node list" where
  "pageWithOgImages =
     [ElementNode ''html'' []
        [ElementNode ''head'' []
           [ElementNode ''meta'' [(''property'', ''og:image''), (''content'', '''')] [],
            ElementNode ''meta'' [(''property'', ''og:image'')] [],
            ElementNode ''meta'' [(''property'', ''og:image''), (''content'', ''/img/logo.png'')] []],
         ElementNode ''body'' [] [ElementNode ''img'' [(''src'', ''/a.png'')] []]]]"

definition pageWithTwoTitles :: "node list" where
  "pageWithTwoTitles =
     [ElementNode ''html'' []
        [ElementNode ''head'' [] [ElementNode ''title'' [] [TextNode '' A '']],
         ElementNode ''body'' []
           [ElementNode ''svg'' [] [ElementNode ''title'' [] [TextNode ''B'']]]]]"

definition netDown :: "outbound \<Rightarrow> http_result" where
  "netDown = net TransportError TransportError TransportError"

definition pageServed :: "outbound \<Rightarrow> http_result" where
  "pageServed = net TransportError TransportError (Response 200 ''<html>'')"

lemmas sample_defs =
  emptyURL_def pageURL_def watchURL_def bareWatchURL_def net_def sampleOEmbed_def
  sampleSnippet_def sampleLib_def pageWithOgTitle_def pageWithBlankOgTitle_def
  pageWithImgs_def pageWithBadImg_def pageWithOgImages_def pageWithTwoTitles_def netDown_def
  pageServed_def

lemmas service_defs =
  isYouTubeURL_def extractYouTubeID_def oeURL_def apiURL_def fetchYouTubeOEmbed_def
  fetchYouTubeDataAPI_def getFirstContent_def extractMetadata_def genericScrape_def
  getMetadataHandler_def Find_def First_def Text_def TrimPrefix_def TrimSpace_def
  spaceWidth_def spaceRunes_def

section \<open>Facts shared by the claims\<close>

lemma eachOgImage_eq:
  "eachOgImage ss images = images @ List.map_filter (\<lambda>s. Attr [s] ''content'') ss"
  by (induction ss arbitrary: images) (auto split: option.splits)

lemma eachImg_eq:
  "eachImg L p ss images =
     images @ map (\<lambda>u. url_String L (url_ResolveReference L p u))
       (List.map_filter (url_Parse L) (List.map_filter (\<lambda>s. Attr [s] ''src'') ss))"
  by (induction ss arbitrary: images) (auto split: option.splits)

lemma fetchYouTubeOEmbed_calls:
  "snd (fetchYouTubeOEmbed L v calls) = calls @ [OEmbedGet (oeURL L v)]"
  by (simp add: fetchYouTubeOEmbed_def Let_def split: http_result.splits option.splits)

lemma fetchYouTubeOEmbed_Inr:
  assumes "fetchYouTubeOEmbed L v calls = (Inr m, calls')"
  shows "\<exists>b oe. http_Do L (OEmbedGet (oeURL L v)) = Response 200 b
           \<and> json_Decode_oEmbed L b = Some oe
           \<and> m = \<lparr>URL = v, PageName = oe_Provider oe, Title = oe_Title oe,
                   Description = oe_AuthorName oe, Images = [oe_ThumbnailURL oe]\<rparr>
           \<and> calls' = calls @ [OEmbedGet (oeURL L v)]"
  using assms
  by (auto simp add: fetchYouTubeOEmbed_def Let_def
           split: http_result.splits option.splits if_splits)

lemma fetchYouTubeDataAPI_calls:
  "snd (fetchYouTubeDataAPI L v k calls) = calls @ [DataAPIGet (apiURL v k)]"
  by (simp add: fetchYouTubeDataAPI_def Let_def
           split: http_result.splits option.splits list.splits)

lemma fetchYouTubeDataAPI_Inr:
  assumes "fetchYouTubeDataAPI L v k calls = (Inr m, calls')"
  shows "\<exists>b d it its. http_Do L (DataAPIGet (apiURL v k)) = Response 200 b
           \<and> json_Decode_youtube L b = Some d \<and> Items d = it # its
           \<and> m = \<lparr>URL = v, PageName = snip_ChannelTitle (Snippet it),
                   Title = snip_Title (Snippet it),
                   Description = snip_Description (Snippet it),
                   Images = [case snip_Thumbnails (Snippet it) ''high'' of
                               None \<Rightarrow> '''' | Some t \<Rightarrow> thumb_URL t]\<rparr>
           \<and> calls' = calls @ [DataAPIGet (apiURL v k)]"
  using assms
  by (auto simp add: fetchYouTubeDataAPI_def Let_def
           split: http_result.splits option.splits if_splits list.splits)

lemma genericScrape_ok:
  assumes "genericScrape L raw u calls = ((200, MetadataJSON m), calls')"
  shows "\<exists>code b doc. http_Do L (GenericGet (url_String L u)) = Response code b
           \<and> goquery_NewDocumentFromReader L b = Some doc
           \<and> m = extractMetadata L raw u doc
           \<and> calls' = calls @ [GenericGet (url_String L u)]"
  using assms
  by (auto simp add: genericScrape_def Let_def
           split: http_result.splits option.splits if_splits)

lemma handler_ok_cases:
  assumes ok: "getMetadataHandler L key raw = ((200, MetadataJSON m), calls)"
      and p: "url_ParseRequestURI L raw = Some u"
  shows "raw \<noteq> '''' \<and>
     ((fetchYouTubeOEmbed L raw [] = (Inr m, calls) \<and> calls = [OEmbedGet (oeURL L raw)])
      \<or> (key \<noteq> '''' \<and>
          fetchYouTubeDataAPI L (extractYouTubeID L u) key [OEmbedGet (oeURL L raw)]
            = (Inr m, calls)
          \<and> calls = [OEmbedGet (oeURL L raw), DataAPIGet (apiURL (extractYouTubeID L u) key)])
      \<or> (\<exists>pre. genericScrape L raw u pre = ((200, MetadataJSON m), calls)
             \<and> calls = pre @ [GenericGet (url_String L u)]))"
proof -
  have raw: "raw \<noteq> ''''"
    using ok by (auto simp add: getMetadataHandler_def split: if_splits)
  show ?thesis
  proof (cases "isYouTubeURL L u")
    case False
    with ok p raw have g: "genericScrape L raw u [] = ((200, MetadataJSON m), calls)"
      by (simp add: getMetadataHandler_def)
    from genericScrape_ok[OF g] g raw show ?thesis by auto
  next
    case True
    obtain r0 c0 where oe: "fetchYouTubeOEmbed L raw [] = (r0, c0)"
      by (cases "fetchYouTubeOEmbed L raw []")
    have c0: "c0 = [OEmbedGet (oeURL L raw)]"
      using fetchYouTubeOEmbed_calls[of L raw "[]"] oe by simp
    show ?thesis
    proof (cases r0)
      case (Inr m')
      with ok p raw True oe c0 show ?thesis
        by (auto simp add: getMetadataHandler_def)
    next
      case (Inl e)
      show ?thesis
      proof (cases "key = ''''")
        case True
        with ok p raw \<open>isYouTubeURL L u\<close> oe Inl
        have g: "genericScrape L raw u c0 = ((200, MetadataJSON m), calls)"
          by (simp add: getMetadataHandler_def)
        from genericScrape_ok[OF g] g raw show ?thesis by auto
      next
        case False
        obtain r1 c1 where api:
          "fetchYouTubeDataAPI L (extractYouTubeID L u) key c0 = (r1, c1)"
          by (cases "fetchYouTubeDataAPI L (extractYouTubeID L u) key c0")
        have c1: "c1 = c0 @ [DataAPIGet (apiURL (extractYouTubeID L u) key)]"
          using fetchYouTubeDataAPI_calls[of L "extractYouTubeID L u" key c0] api by simp
        show ?thesis
        proof (cases r1)
          case (Inr m')
          with ok p raw \<open>isYouTubeURL L u\<close> oe \<open>r0 = Inl e\<close> False api c0 c1 show ?thesis
            by (auto simp add: getMetadataHandler_def)
        next
          case (Inl e')
          with ok p raw \<open>isYouTubeURL L u\<close> oe \<open>r0 = Inl e\<close> False api
          have g: "genericScrape L raw u c1 = ((200, MetadataJSON m), calls)"
            by (simp add: getMetadataHandler_def)
          from genericScrape_ok[OF g] g raw show ?thesis by auto
        qed
      qed
    qed
  qed
qed

section \<open>The Data API client and an empty video ID\<close>

text \<open>
  With the network down and an empty video ID, \<^verbatim>\<open>fetchYouTubeDataAPI\<close> still calls
  \<^verbatim>\<open>client.Get\<close> with the Data API URL (the \<^verbatim>\<open>id\<close> parameter empty) and reports the API
  error of the failed request; it has no check of the ID before that call. The handler makes
  such a call for a watch URL with no \<^verbatim>\<open>v\<close> parameter.
\<close>

theorem C1_empty_id_counterexample:
  "fetchYouTubeDataAPI (sampleLib netDown []) '''' ''k'' []
     = (Inl YouTubeAPIError,
        [DataAPIGet ''https://www.googleapis.com/youtube/v3/videos?part=snippet&id=&key=k''])
   \<and> extractYouTubeID (sampleLib netDown []) bareWatchURL = ''''
   \<and> snd (getMetadataHandler (sampleLib netDown []) ''k'' ''https://www.youtube.com/watch'')
     = [OEmbedGet ''https://www.youtube.com/oembed?url=https%3A%2F%2Fwww.youtube.com%2Fwatch&format=json'',
        DataAPIGet ''https://www.googleapis.com/youtube/v3/videos?part=snippet&id=&key=k'',
        GenericGet ''https://www.youtube.com/watch'']"
  by (simp add: sample_defs service_defs)

text \<open>
  C1, as the code has it: called with an empty video ID, \<^verbatim>\<open>fetchYouTubeDataAPI\<close> does not
  fail fast. It calls the HTTP client (\<^verbatim>\<open>client.Get\<close>) exactly once, with the Data API URL
  whose \<^verbatim>\<open>id\<close> parameter is empty, whatever the key; and it fails with the not-found error
  ("no video found for ID") exactly when that call returns status 200 and a body that
  decodes to an empty list of items.
\<close>

theorem C1_empty_id_still_calls_api:
  "snd (fetchYouTubeDataAPI L '''' apiKey calls) = calls @ [DataAPIGet (apiURL '''' apiKey)] \<and>
   (fst (fetchYouTubeDataAPI L '''' apiKey calls) = Inl (NoVideoFound '''') \<longleftrightarrow>
      (\<exists>b data. http_Do L (DataAPIGet (apiURL '''' apiKey)) = Response 200 b
                 \<and> json_Decode_youtube L b = Some data \<and> Items data = []))"
proof
  show "snd (fetchYouTubeDataAPI L '''' apiKey calls) = calls @ [DataAPIGet (apiURL '''' apiKey)]"
    by (rule fetchYouTubeDataAPI_calls)
  show "fst (fetchYouTubeDataAPI L '''' apiKey calls) = Inl (NoVideoFound '''') \<longleftrightarrow>
      (\<exists>b data. http_Do L (DataAPIGet (apiURL '''' apiKey)) = Response 200 b
                 \<and> json_Decode_youtube L b = Some data \<and> Items data = [])"
    by (auto simp add: fetchYouTubeDataAPI_def Let_def
             split: http_result.splits option.splits list.splits)
qed

theorem C1_empty_id_still_calls_api_witness:
  "snd (fetchYouTubeDataAPI (sampleLib (net TransportError (Response 200 ''{}'') TransportError) [])
          '''' ''k'' [])
     = [DataAPIGet ''https://www.googleapis.com/youtube/v3/videos?part=snippet&id=&key=k'']
   \<and> fst (fetchYouTubeDataAPI (sampleLib (net TransportError (Response 200 ''{}'') TransportError) [])
          '''' ''k'' []) = Inl (NoVideoFound '''')"
  using C1_empty_id_still_calls_api
          [of "sampleLib (net TransportError (Response 200 ''{}'') TransportError) []" "''k''" "[]"]
  by (simp add: sample_defs apiURL_def)

section \<open>What the two provider clients return\<close>

text \<open>
  C8: when the Data API request is answered with status 200 and the body decodes to a
  non-empty list of items, \<^verbatim>\<open>fetchYouTubeDataAPI\<close> succeeds, after that one request, with
  the record built from the first item: page name the channel title, title and description
  those of the snippet, images the one-element list holding the URL of the thumbnail keyed
  \<^verbatim>\<open>high\<close> (the empty string when that key is absent), and url the video ID, not the
  page's URL.
\<close>

theorem C8_data_api_mapping:
  assumes "http_Do L (DataAPIGet (apiURL videoID apiKey)) = Response 200 b"
      and "json_Decode_youtube L b = Some data"
      and "Items data = it # its"
  shows "fetchYouTubeDataAPI L videoID apiKey calls =
           (Inr \<lparr>URL = videoID,
                 PageName = snip_ChannelTitle (Snippet it),
                 Title = snip_Title (Snippet it),
                 Description = snip_Description (Snippet it),
                 Images = [case snip_Thumbnails (Snippet it) ''high'' of
                             None \<Rightarrow> '''' | Some t \<Rightarrow> thumb_URL t]\<rparr>,
            calls @ [DataAPIGet (apiURL videoID apiKey)])"
  using assms by (simp add: fetchYouTubeDataAPI_def Let_def)

theorem C8_data_api_mapping_witness:
  "fetchYouTubeDataAPI (sampleLib (net TransportError (Response 200 ''video.json'') TransportError) [])
       ''abc'' ''k'' []
     = (Inr \<lparr>URL = ''abc'', PageName = ''A channel'', Title = ''A video'',
             Description = ''About it'',
             Images = [''https://i.ytimg.com/vi/abc/hqdefault.jpg'']\<rparr>,
        [DataAPIGet ''https://www.googleapis.com/youtube/v3/videos?part=snippet&id=abc&key=k''])
   \<and> fetchYouTubeDataAPI (sampleLib (net TransportError (Response 200 ''nothumb.json'') TransportError) [])
       ''abc'' ''k'' []
     = (Inr \<lparr>URL = ''abc'', PageName = ''A channel'', Title = ''A video'',
             Description = ''About it'', Images = ['''']\<rparr>,
        [DataAPIGet ''https://www.googleapis.com/youtube/v3/videos?part=snippet&id=abc&key=k''])"
proof
  let ?L = "sampleLib (net TransportError (Response 200 ''video.json'') TransportError) []"
  have h: "http_Do ?L (DataAPIGet (apiURL ''abc'' ''k'')) = Response 200 ''video.json''"
    by (simp add: sample_defs)
  have d: "json_Decode_youtube ?L ''video.json'' = Some \<lparr>Items = [\<lparr>Snippet = sampleSnippet\<rparr>]\<rparr>"
    by (simp add: sample_defs)
  have i: "Items \<lparr>Items = [\<lparr>Snippet = sampleSnippet\<rparr>]\<rparr> = \<lparr>Snippet = sampleSnippet\<rparr> # []"
    by simp
  from C8_data_api_mapping[OF h d i, of "[]"]
  show "fetchYouTubeDataAPI ?L ''abc'' ''k'' []
     = (Inr \<lparr>URL = ''abc'', PageName = ''A channel'', Title = ''A video'',
             Description = ''About it'',
             Images = [''https://i.ytimg.com/vi/abc/hqdefault.jpg'']\<rparr>,
        [DataAPIGet ''https://www.googleapis.com/youtube/v3/videos?part=snippet&id=abc&key=k''])"
    by (simp add: sampleSnippet_def apiURL_def)
next
  let ?L = "sampleLib (net TransportError (Response 200 ''nothumb.json'') TransportError) []"
  let ?it = "\<lparr>Snippet = sampleSnippet\<lparr>snip_Thumbnails := Map.empty\<rparr>\<rparr>"
  have h: "http_Do ?L (DataAPIGet (apiURL ''abc'' ''k'')) = Response 200 ''nothumb.json''"
    by (simp add: sample_defs)
  have d: "json_Decode_youtube ?L ''nothumb.json'' = Some \<lparr>Items = [?it]\<rparr>"
    by (simp add: sample_defs)
  have i: "Items \<lparr>Items = [?it]\<rparr> = ?it # []"
    by simp
  from C8_data_api_mapping[OF h d i, of "[]"]
  show "fetchYouTubeDataAPI ?L ''abc'' ''k'' []
     = (Inr \<lparr>URL = ''abc'', PageName = ''A channel'', Title = ''A video'',
             Description = ''About it'', Images = ['''']\<rparr>,
        [DataAPIGet ''https://www.googleapis.com/youtube/v3/videos?part=snippet&id=abc&key=k''])"
    by (simp add: sampleSnippet_def apiURL_def)
qed

text \<open>
  C9: when the oEmbed request is answered with status 200 and the body decodes,
  \<^verbatim>\<open>fetchYouTubeOEmbed\<close> succeeds, after that one request, with page name the provider
  name, title the title, description the author name, images the one-element list holding
  the thumbnail URL, and url the page URL it was given.
\<close>

theorem C9_oembed_mapping:
  assumes "http_Do L (OEmbedGet (oeURL L videoURL)) = Response 200 b"
      and "json_Decode_oEmbed L b = Some oe"
  shows "fetchYouTubeOEmbed L videoURL calls =
           (Inr \<lparr>URL = videoURL,
                 PageName = oe_Provider oe,
                 Title = oe_Title oe,
                 Description = oe_AuthorName oe,
                 Images = [oe_ThumbnailURL oe]\<rparr>,
            calls @ [OEmbedGet (oeURL L videoURL)])"
  using assms by (simp add: fetchYouTubeOEmbed_def Let_def)

theorem C9_oembed_mapping_witness:
  "fetchYouTubeOEmbed (sampleLib (net (Response 200 ''oembed.json'') TransportError TransportError) [])
       ''https://www.youtube.com/watch?v=abc'' []
     = (Inr \<lparr>URL = ''https://www.youtube.com/watch?v=abc'', PageName = ''YouTube'',
             Title = ''A video'', Description = ''An author'',
             Images = [''https://i.ytimg.com/vi/abc/hqdefault.jpg'']\<rparr>,
        [OEmbedGet ''https://www.youtube.com/oembed?url=https%3A%2F%2Fwww.youtube.com%2Fwatch%3Fv%3Dabc&format=json''])"
proof -
  let ?L = "sampleLib (net (Response 200 ''oembed.json'') TransportError TransportError) []"
  have h: "http_Do ?L (OEmbedGet (oeURL ?L ''https://www.youtube.com/watch?v=abc''))
             = Response 200 ''oembed.json''"
    by (simp add: sample_defs)
  have d: "json_Decode_oEmbed ?L ''oembed.json'' = Some sampleOEmbed"
    by (simp add: sample_defs)
  from C9_oembed_mapping[OF h d, of "[]"] show ?thesis
    by (simp add: sample_defs oeURL_def)
qed

section \<open>Validation of the request\<close>

text \<open>
  The bare path \<^verbatim>\<open>/foo\<close> is not an absolute URL, and \<^verbatim>\<open>url.ParseRequestURI\<close> accepts it
  (it takes an absolute URI or an absolute path). The handler then goes on to the generic
  fetch, which fails, and answers 502, not 400.
\<close>

theorem C5_path_only_counterexample:
  "\<not> absolute_url ''/foo''
   \<and> getMetadataHandler (sampleLib netDown []) '''' ''/foo''
       = ((502, ErrorJSON ''failed to fetch target''), [GenericGet ''/foo''])"
  by (simp add: absolute_url_def sample_defs service_defs)

text \<open>
  C5, as the code has it: for every request whose \<^verbatim>\<open>url\<close> parameter is empty or is rejected
  by \<^verbatim>\<open>url.ParseRequestURI\<close>, the handler answers 400 with an error body and makes no
  outbound call.
\<close>

theorem C5_rejected_url:
  assumes "rawURL = '''' \<or> url_ParseRequestURI L rawURL = None"
  shows "fst (fst (getMetadataHandler L ytAPIKey rawURL)) = 400
         \<and> (\<exists>msg. snd (fst (getMetadataHandler L ytAPIKey rawURL)) = ErrorJSON msg)
         \<and> snd (getMetadataHandler L ytAPIKey rawURL) = []"
  using assms by (auto simp add: getMetadataHandler_def)

theorem C5_rejected_url_witness:
  "fst (fst (getMetadataHandler (sampleLib pageServed pageWithImgs) ''k'' ''not a url'')) = 400
   \<and> snd (getMetadataHandler (sampleLib pageServed pageWithImgs) ''k'' ''not a url'') = []"
proof -
  have h: "''not a url'' = '''' \<or>
           url_ParseRequestURI (sampleLib pageServed pageWithImgs) ''not a url'' = None"
    by (simp add: sampleLib_def)
  from C5_rejected_url[OF h, of "''k''"] show ?thesis by simp
qed

section \<open>The order of the tiers\<close>

text \<open>
  C4: for a request that passes validation and whose URL is a YouTube URL: when the oEmbed
  call succeeds the handler answers 200 with its record and the oEmbed request is the only
  outbound call; when the oEmbed call fails, a Data API request is among the outbound calls
  exactly when the API key is not empty; and when the oEmbed call fails and the key is
  empty, or the Data API call fails too, the answer is that of the generic HTML path, run
  after the calls already made.
\<close>

theorem C4_provider_tiers:
  assumes "rawURL \<noteq> ''''"
      and "url_ParseRequestURI L rawURL = Some parsedURL"
      and "isYouTubeURL L parsedURL"
  shows "(\<forall>meta. fst (fetchYouTubeOEmbed L rawURL []) = Inr meta \<longrightarrow>
            getMetadataHandler L ytAPIKey rawURL
              = ((200, MetadataJSON meta), [OEmbedGet (oeURL L rawURL)]))
       \<and> (\<forall>err. fst (fetchYouTubeOEmbed L rawURL []) = Inl err \<longrightarrow>
            ((\<exists>c. DataAPIGet c \<in> set (snd (getMetadataHandler L ytAPIKey rawURL)))
               \<longleftrightarrow> ytAPIKey \<noteq> ''''))
       \<and> (\<forall>err. fst (fetchYouTubeOEmbed L rawURL []) = Inl err \<and> ytAPIKey = '''' \<longrightarrow>
            getMetadataHandler L ytAPIKey rawURL
              = genericScrape L rawURL parsedURL [OEmbedGet (oeURL L rawURL)])
       \<and> (\<forall>err err'. fst (fetchYouTubeOEmbed L rawURL []) = Inl err \<and> ytAPIKey \<noteq> ''''
              \<and> fst (fetchYouTubeDataAPI L (extractYouTubeID L parsedURL) ytAPIKey
                        [OEmbedGet (oeURL L rawURL)]) = Inl err' \<longrightarrow>
            getMetadataHandler L ytAPIKey rawURL
              = genericScrape L rawURL parsedURL
                  [OEmbedGet (oeURL L rawURL),
                   DataAPIGet (apiURL (extractYouTubeID L parsedURL) ytAPIKey)])"
proof -
  obtain r0 c0 where oe: "fetchYouTubeOEmbed L rawURL [] = (r0, c0)"
    by (cases "fetchYouTubeOEmbed L rawURL []")
  have c0: "c0 = [OEmbedGet (oeURL L rawURL)]"
    using fetchYouTubeOEmbed_calls[of L rawURL "[]"] oe by simp
  obtain r1 c1 where api:
    "fetchYouTubeDataAPI L (extractYouTubeID L parsedURL) ytAPIKey c0 = (r1, c1)"
    by (cases "fetchYouTubeDataAPI L (extractYouTubeID L parsedURL) ytAPIKey c0")
  have c1: "c1 = c0 @ [DataAPIGet (apiURL (extractYouTubeID L parsedURL) ytAPIKey)]"
    using fetchYouTubeDataAPI_calls[of L "extractYouTubeID L parsedURL" ytAPIKey c0] api
    by simp
  have gen: "\<And>pre. snd (genericScrape L rawURL parsedURL pre) = pre
                \<or> snd (genericScrape L rawURL parsedURL pre)
                     = pre @ [GenericGet (url_String L parsedURL)]"
    by (simp add: genericScrape_def Let_def split: http_result.splits option.splits)
  have first: "\<forall>meta. fst (fetchYouTubeOEmbed L rawURL []) = Inr meta \<longrightarrow>
            getMetadataHandler L ytAPIKey rawURL
              = ((200, MetadataJSON meta), [OEmbedGet (oeURL L rawURL)])"
    using assms oe c0 by (simp add: getMetadataHandler_def)
  have third: "\<forall>err. fst (fetchYouTubeOEmbed L rawURL []) = Inl err \<and> ytAPIKey = '''' \<longrightarrow>
            getMetadataHandler L ytAPIKey rawURL
              = genericScrape L rawURL parsedURL [OEmbedGet (oeURL L rawURL)]"
    using assms oe c0 by (simp add: getMetadataHandler_def)
  have fourth: "\<forall>err err'. fst (fetchYouTubeOEmbed L rawURL []) = Inl err \<and> ytAPIKey \<noteq> ''''
              \<and> fst (fetchYouTubeDataAPI L (extractYouTubeID L parsedURL) ytAPIKey
                        [OEmbedGet (oeURL L rawURL)]) = Inl err' \<longrightarrow>
            getMetadataHandler L ytAPIKey rawURL
              = genericScrape L rawURL parsedURL
                  [OEmbedGet (oeURL L rawURL),
                   DataAPIGet (apiURL (extractYouTubeID L parsedURL) ytAPIKey)]"
    using assms oe c0 api c1 by (simp add: getMetadataHandler_def)
  have second: "\<forall>err. fst (fetchYouTubeOEmbed L rawURL []) = Inl err \<longrightarrow>
            ((\<exists>c. DataAPIGet c \<in> set (snd (getMetadataHandler L ytAPIKey rawURL)))
               \<longleftrightarrow> ytAPIKey \<noteq> '''')"
  proof (intro allI impI)
    fix err assume "fst (fetchYouTubeOEmbed L rawURL []) = Inl err"
    with oe have r0: "r0 = Inl err" by simp
    show "(\<exists>c. DataAPIGet c \<in> set (snd (getMetadataHandler L ytAPIKey rawURL)))
               \<longleftrightarrow> ytAPIKey \<noteq> ''''"
    proof (cases "ytAPIKey = ''''")
      case True
      with assms oe r0 have "getMetadataHandler L ytAPIKey rawURL
          = genericScrape L rawURL parsedURL c0"
        by (simp add: getMetadataHandler_def)
      with gen[of c0] c0 True show ?thesis by auto
    next
      case False
      show ?thesis
      proof (cases r1)
        case (Inr m)
        with assms oe r0 False api have "getMetadataHandler L ytAPIKey rawURL
          = ((200, MetadataJSON m), c1)"
          by (simp add: getMetadataHandler_def)
        with c1 False show ?thesis by auto
      next
        case (Inl e)
        with assms oe r0 False api have "getMetadataHandler L ytAPIKey rawURL
          = genericScrape L rawURL parsedURL c1"
          by (simp add: getMetadataHandler_def)
        with gen[of c1] c1 False show ?thesis by auto
      qed
    qed
  qed
  from first second third fourth show ?thesis by blast
qed
theorem C4_provider_tiers_witness:
  "getMetadataHandler
       (sampleLib (net (Response 200 ''oembed.json'') (Response 200 ''video.json'')
                     (Response 200 ''<html>'')) pageWithImgs)
       ''k'' ''https://www.youtube.com/watch?v=abc''
     = ((200, MetadataJSON \<lparr>URL = ''https://www.youtube.com/watch?v=abc'',
                            PageName = ''YouTube'', Title = ''A video'',
                            Description = ''An author'',
                            Images = [''https://i.ytimg.com/vi/abc/hqdefault.jpg'']\<rparr>),
        [OEmbedGet ''https://www.youtube.com/oembed?url=https%3A%2F%2Fwww.youtube.com%2Fwatch%3Fv%3Dabc&format=json''])
   \<and> snd (getMetadataHandler (sampleLib netDown []) '''' ''https://www.youtube.com/watch?v=abc'')
     = [OEmbedGet ''https://www.youtube.com/oembed?url=https%3A%2F%2Fwww.youtube.com%2Fwatch%3Fv%3Dabc&format=json'',
        GenericGet ''https://www.youtube.com/watch?v=abc'']
   \<and> getMetadataHandler (sampleLib netDown []) ''k'' ''https://www.youtube.com/watch?v=abc''
     = ((502, ErrorJSON ''failed to fetch target''),
        [OEmbedGet ''https://www.youtube.com/oembed?url=https%3A%2F%2Fwww.youtube.com%2Fwatch%3Fv%3Dabc&format=json'',
         DataAPIGet ''https://www.googleapis.com/youtube/v3/videos?part=snippet&id=abc&key=k'',
         GenericGet ''https://www.youtube.com/watch?v=abc''])"
proof (intro conjI)
  let ?raw = "''https://www.youtube.com/watch?v=abc''"
  let ?L = "sampleLib (net (Response 200 ''oembed.json'') (Response 200 ''video.json'')
                     (Response 200 ''<html>'')) pageWithImgs"
  let ?m = "\<lparr>URL = ?raw, PageName = ''YouTube'', Title = ''A video'',
             Description = ''An author'',
             Images = [''https://i.ytimg.com/vi/abc/hqdefault.jpg'']\<rparr>"
  have h1: "?raw \<noteq> ''''" by simp
  have h2: "url_ParseRequestURI ?L ?raw = Some watchURL" by (simp add: sampleLib_def)
  have h3: "isYouTubeURL ?L watchURL" by (simp add: sample_defs isYouTubeURL_def)
  have f: "fst (fetchYouTubeOEmbed ?L ?raw []) = Inr ?m"
    by (simp add: sample_defs fetchYouTubeOEmbed_def oeURL_def)
  from C4_provider_tiers[OF h1 h2 h3, of "''k''"] f
  have "getMetadataHandler ?L ''k'' ?raw = ((200, MetadataJSON ?m), [OEmbedGet (oeURL ?L ?raw)])"
    by blast
  then show "getMetadataHandler ?L ''k'' ?raw
     = ((200, MetadataJSON ?m),
        [OEmbedGet ''https://www.youtube.com/oembed?url=https%3A%2F%2Fwww.youtube.com%2Fwatch%3Fv%3Dabc&format=json''])"
    by (simp add: oeURL_def sampleLib_def)
next
  let ?raw = "''https://www.youtube.com/watch?v=abc''"
  let ?L = "sampleLib netDown []"
  have h1: "?raw \<noteq> ''''" by simp
  have h2: "url_ParseRequestURI ?L ?raw = Some watchURL" by (simp add: sampleLib_def)
  have h3: "isYouTubeURL ?L watchURL" by (simp add: sample_defs isYouTubeURL_def)
  have f: "fst (fetchYouTubeOEmbed ?L ?raw []) = Inl OEmbedError"
    by (simp add: sample_defs fetchYouTubeOEmbed_def oeURL_def)
  from C4_provider_tiers[OF h1 h2 h3, of "''''"] f
  have "getMetadataHandler ?L '''' ?raw
          = genericScrape ?L ?raw watchURL [OEmbedGet (oeURL ?L ?raw)]"
    by blast
  then show "snd (getMetadataHandler ?L '''' ?raw)
     = [OEmbedGet ''https://www.youtube.com/oembed?url=https%3A%2F%2Fwww.youtube.com%2Fwatch%3Fv%3Dabc&format=json'',
        GenericGet ''https://www.youtube.com/watch?v=abc'']"
    by (simp add: oeURL_def genericScrape_def sample_defs)
next
  let ?raw = "''https://www.youtube.com/watch?v=abc''"
  let ?L = "sampleLib netDown []"
  have h1: "?raw \<noteq> ''''" by simp
  have h2: "url_ParseRequestURI ?L ?raw = Some watchURL" by (simp add: sampleLib_def)
  have h3: "isYouTubeURL ?L watchURL" by (simp add: sample_defs isYouTubeURL_def)
  have f: "fst (fetchYouTubeOEmbed ?L ?raw []) = Inl OEmbedError"
    by (simp add: sample_defs fetchYouTubeOEmbed_def oeURL_def)
  have k: "''k'' \<noteq> ''''" by simp
  have g: "fst (fetchYouTubeDataAPI ?L (extractYouTubeID ?L watchURL) ''k''
                  [OEmbedGet (oeURL ?L ?raw)]) = Inl YouTubeAPIError"
    by (simp add: sample_defs fetchYouTubeDataAPI_def)
  from C4_provider_tiers[OF h1 h2 h3, of "''k''"] f k g
  have "getMetadataHandler ?L ''k'' ?raw
          = genericScrape ?L ?raw watchURL
              [OEmbedGet (oeURL ?L ?raw),
               DataAPIGet (apiURL (extractYouTubeID ?L watchURL) ''k'')]"
    by blast
  then show "getMetadataHandler ?L ''k'' ?raw
     = ((502, ErrorJSON ''failed to fetch target''),
        [OEmbedGet ''https://www.youtube.com/oembed?url=https%3A%2F%2Fwww.youtube.com%2Fwatch%3Fv%3Dabc&format=json'',
         DataAPIGet ''https://www.googleapis.com/youtube/v3/videos?part=snippet&id=abc&key=k'',
         GenericGet ''https://www.youtube.com/watch?v=abc''])"
    by (simp add: oeURL_def apiURL_def extractYouTubeID_def genericScrape_def sample_defs)
qed

section \<open>The fields of the extracted record\<close>

lemma URL_extractMetadata: "URL (extractMetadata L raw u doc) = raw"
  by (simp add: extractMetadata_def Let_def)

lemma PageName_extractMetadata:
  "PageName (extractMetadata L raw u doc) =
     (if getFirstContent doc (TagAttr ''meta'' ''property'' ''og:site_name'') = '''' then Host u
      else getFirstContent doc (TagAttr ''meta'' ''property'' ''og:site_name''))"
  by (simp add: extractMetadata_def Let_def)

lemma Title_extractMetadata:
  "Title (extractMetadata L raw u doc) =
     (if getFirstContent doc (TagAttr ''meta'' ''property'' ''og:title'') = ''''
      then TrimSpace (Text (Find doc (Tag ''title'')))
      else getFirstContent doc (TagAttr ''meta'' ''property'' ''og:title''))"
  by (simp add: extractMetadata_def Let_def)

lemma Images_extractMetadata:
  "Images (extractMetadata L raw u doc) =
     (if List.map_filter (\<lambda>s. Attr [s] ''content'')
           (Find doc (TagAttr ''meta'' ''property'' ''og:image'')) = []
      then map (\<lambda>r. url_String L (url_ResolveReference L u r))
             (List.map_filter (url_Parse L)
                (List.map_filter (\<lambda>s. Attr [s] ''src'') (Find doc (Tag ''img''))))
      else List.map_filter (\<lambda>s. Attr [s] ''content'')
             (Find doc (TagAttr ''meta'' ''property'' ''og:image'')))"
  by (simp add: extractMetadata_def Let_def eachOgImage_eq eachImg_eq)

lemma getFirstContent_Cons:
  "Find doc sel = n # ns \<Longrightarrow>
   getFirstContent doc sel = (case Attr [n] ''content'' of Some c \<Rightarrow> TrimSpace c | None \<Rightarrow> '''')"
  by (simp add: getFirstContent_def First_def)

lemma getFirstContent_Nil: "Find doc sel = [] \<Longrightarrow> getFirstContent doc sel = ''''"
  by (simp add: getFirstContent_def First_def)

lemma trim_Hi: "TrimSpace '' Hi '' = ''Hi''"
  by (simp add: TrimSpace_def spaceWidth_def spaceRunes_def)

lemma trim_Hello: "TrimSpace '' Hello '' = ''Hello''"
  by (simp add: TrimSpace_def spaceWidth_def spaceRunes_def)

lemma trim_empty: "TrimSpace '''' = ''''"
  by (simp add: TrimSpace_def)

section \<open>The title\<close>

text \<open>
  A page whose first \<^verbatim>\<open>og:title\<close> tag has an empty \<^verbatim>\<open>content\<close> and whose \<^verbatim>\<open>title\<close>
  element reads "Hello": the tag is present and its trimmed content is the empty string,
  yet the extracted title is "Hello". And a page with no \<^verbatim>\<open>og:title\<close> tag, the title " A "
  in its head and an inline SVG whose \<^verbatim>\<open>title\<close> reads "B": the extracted title is "A B",
  the text of both elements, where the document's own title element alone gives "A".
\<close>

theorem C6_blank_og_title_counterexample:
  "Attr (First (Find pageWithBlankOgTitle (TagAttr ''meta'' ''property'' ''og:title'')))
        ''content'' = Some ''''
   \<and> TrimSpace '''' = ''''
   \<and> Title (extractMetadata (sampleLib pageServed pageWithBlankOgTitle) ''https://x.test/p''
              pageURL pageWithBlankOgTitle) = ''Hello''
   \<and> Find pageWithTwoTitles (TagAttr ''meta'' ''property'' ''og:title'') = []
   \<and> Find pageWithTwoTitles (Tag ''title'')
       = [ElementNode ''title'' [] [TextNode '' A ''], ElementNode ''title'' [] [TextNode ''B'']]
   \<and> TrimSpace (nodeText (ElementNode ''title'' [] [TextNode '' A ''])) = ''A''
   \<and> Title (extractMetadata (sampleLib pageServed pageWithTwoTitles) ''https://x.test/p''
              pageURL pageWithTwoTitles) = ''A B''"
  by (simp add: Title_extractMetadata getFirstContent_def First_def Find_def Text_def
                pageWithBlankOgTitle_def pageWithTwoTitles_def trim_Hello trim_empty
                TrimSpace_def spaceWidth_def spaceRunes_def)

text \<open>
  C6, as the code has it: the extracted title is the trimmed content of the first
  \<^verbatim>\<open>og:title\<close> meta tag when that tag has a \<^verbatim>\<open>content\<close> attribute whose trimmed value is
  not empty, whatever the \<^verbatim>\<open>title\<close> element says; when there is no such tag, and also
  when the first one has no \<^verbatim>\<open>content\<close> attribute or a blank one, it is the text of all
  the \<^verbatim>\<open>title\<close> elements of the document (an inline SVG's among them), concatenated in
  document order and then trimmed.
\<close>

theorem C6_title_precedence:
  "(\<forall>n ns content.
       Find doc (TagAttr ''meta'' ''property'' ''og:title'') = n # ns
       \<and> Attr [n] ''content'' = Some content \<and> TrimSpace content \<noteq> '''' \<longrightarrow>
       Title (extractMetadata L rawURL parsedURL doc) = TrimSpace content)
   \<and> (Find doc (TagAttr ''meta'' ''property'' ''og:title'') = [] \<longrightarrow>
       Title (extractMetadata L rawURL parsedURL doc)
         = TrimSpace (Text (Find doc (Tag ''title''))))
   \<and> (\<forall>n ns.
       Find doc (TagAttr ''meta'' ''property'' ''og:title'') = n # ns
       \<and> (Attr [n] ''content'' = None
            \<or> (\<exists>content. Attr [n] ''content'' = Some content \<and> TrimSpace content = '''')) \<longrightarrow>
       Title (extractMetadata L rawURL parsedURL doc)
         = TrimSpace (Text (Find doc (Tag ''title''))))"
proof (intro conjI allI impI)
  fix n ns content
  assume "Find doc (TagAttr ''meta'' ''property'' ''og:title'') = n # ns
       \<and> Attr [n] ''content'' = Some content \<and> TrimSpace content \<noteq> ''''"
  then show "Title (extractMetadata L rawURL parsedURL doc) = TrimSpace content"
    by (simp add: Title_extractMetadata getFirstContent_Cons)
next
  assume "Find doc (TagAttr ''meta'' ''property'' ''og:title'') = []"
  then show "Title (extractMetadata L rawURL parsedURL doc)
         = TrimSpace (Text (Find doc (Tag ''title'')))"
    by (simp add: Title_extractMetadata getFirstContent_Nil)
next
  fix n ns
  assume "Find doc (TagAttr ''meta'' ''property'' ''og:title'') = n # ns
       \<and> (Attr [n] ''content'' = None
            \<or> (\<exists>content. Attr [n] ''content'' = Some content \<and> TrimSpace content = ''''))"
  then show "Title (extractMetadata L rawURL parsedURL doc)
         = TrimSpace (Text (Find doc (Tag ''title'')))"
    by (auto simp add: Title_extractMetadata getFirstContent_Cons)
qed

theorem C6_title_precedence_witness:
  "Title (extractMetadata (sampleLib pageServed pageWithOgTitle) ''https://x.test/p'' pageURL
            pageWithOgTitle) = ''Hi''
   \<and> Title (extractMetadata (sampleLib pageServed pageWithImgs) ''https://x.test/p'' pageURL
            pageWithImgs) = ''Pictures''
   \<and> Title (extractMetadata (sampleLib pageServed pageWithBlankOgTitle) ''https://x.test/p'' pageURL
            pageWithBlankOgTitle) = ''Hello''"
proof (intro conjI)
  let ?n = "ElementNode ''meta'' [(''property'', ''og:title''), (''content'', '' Hi '')] []"
  have f: "Find pageWithOgTitle (TagAttr ''meta'' ''property'' ''og:title'') = ?n # []"
    by (simp add: pageWithOgTitle_def Find_def)
  have a: "Attr [?n] ''content'' = Some '' Hi ''" by simp
  have t: "TrimSpace '' Hi '' \<noteq> ''''" by (simp add: trim_Hi)
  from C6_title_precedence[of pageWithOgTitle "sampleLib pageServed pageWithOgTitle"
         "''https://x.test/p''" pageURL] f a t
  have "Title (extractMetadata (sampleLib pageServed pageWithOgTitle) ''https://x.test/p'' pageURL
            pageWithOgTitle) = TrimSpace '' Hi ''"
    by blast
  then show "Title (extractMetadata (sampleLib pageServed pageWithOgTitle) ''https://x.test/p''
            pageURL pageWithOgTitle) = ''Hi''"
    by (simp add: trim_Hi)
next
  have f: "Find pageWithImgs (TagAttr ''meta'' ''property'' ''og:title'') = []"
    by (simp add: pageWithImgs_def Find_def)
  have t: "TrimSpace (Text (Find pageWithImgs (Tag ''title''))) = ''Pictures''"
    by (simp add: pageWithImgs_def Find_def Text_def TrimSpace_def spaceWidth_def spaceRunes_def)
  from C6_title_precedence[of pageWithImgs "sampleLib pageServed pageWithImgs"
         "''https://x.test/p''" pageURL] f
  have "Title (extractMetadata (sampleLib pageServed pageWithImgs) ''https://x.test/p'' pageURL
            pageWithImgs) = TrimSpace (Text (Find pageWithImgs (Tag ''title'')))"
    by blast
  with t show "Title (extractMetadata (sampleLib pageServed pageWithImgs) ''https://x.test/p''
            pageURL pageWithImgs) = ''Pictures''"
    by simp
next
  let ?n = "ElementNode ''meta'' [(''property'', ''og:title''), (''content'', '''')] []"
  have f: "Find pageWithBlankOgTitle (TagAttr ''meta'' ''property'' ''og:title'') = ?n # []"
    by (simp add: pageWithBlankOgTitle_def Find_def)
  have a: "Attr [?n] ''content'' = Some ''''" by simp
  have e: "TrimSpace '''' = ''''" by (rule trim_empty)
  have t: "TrimSpace (Text (Find pageWithBlankOgTitle (Tag ''title''))) = ''Hello''"
    by (simp add: pageWithBlankOgTitle_def Find_def Text_def trim_Hello)
  from C6_title_precedence[of pageWithBlankOgTitle "sampleLib pageServed pageWithBlankOgTitle"
         "''https://x.test/p''" pageURL] f a e
  have "Title (extractMetadata (sampleLib pageServed pageWithBlankOgTitle) ''https://x.test/p''
            pageURL pageWithBlankOgTitle)
          = TrimSpace (Text (Find pageWithBlankOgTitle (Tag ''title'')))"
    by blast
  with t show "Title (extractMetadata (sampleLib pageServed pageWithBlankOgTitle)
            ''https://x.test/p'' pageURL pageWithBlankOgTitle) = ''Hello''"
    by simp
qed

section \<open>The images of a page\<close>

lemma find_img_pageWithImgs:
  "Find pageWithImgs (Tag ''img'') =
     [ElementNode ''img'' [(''src'', ''/a.png'')] [],
      ElementNode ''img'' [(''alt'', ''none'')] [],
      ElementNode ''img'' [(''src'', ''/b.png'')] []]"
  by (simp add: pageWithImgs_def Find_def)

lemma find_og_pageWithOgImages:
  "Find pageWithOgImages (TagAttr ''meta'' ''property'' ''og:image'') =
     [ElementNode ''meta'' [(''property'', ''og:image''), (''content'', '''')] [],
      ElementNode ''meta'' [(''property'', ''og:image'')] [],
      ElementNode ''meta'' [(''property'', ''og:image''), (''content'', ''/img/logo.png'')] []]"
  by (simp add: pageWithOgImages_def Find_def)

text \<open>
  A page with no \<^verbatim>\<open>og:image\<close> tag and one \<^verbatim>\<open>img\<close> element whose \<^verbatim>\<open>src\<close> is \<^verbatim>\<open>%zz\<close>, which
  \<^verbatim>\<open>url.Parse\<close> rejects: the element has a source, and the extracted images are empty.
\<close>

theorem C7_unparsable_src_counterexample:
  "Find pageWithBadImg (TagAttr ''meta'' ''property'' ''og:image'') = []
   \<and> List.map_filter (\<lambda>s. Attr [s] ''src'') (Find pageWithBadImg (Tag ''img'')) = [''%zz'']
   \<and> Images (extractMetadata (sampleLib pageServed pageWithBadImg) ''https://x.test/p'' pageURL
               pageWithBadImg) = []"
  by (simp add: Images_extractMetadata pageWithBadImg_def Find_def sampleLib_def)

text \<open>
  C7, as the code has it: for a document with no \<^verbatim>\<open>og:image\<close> meta tag, the images are,
  in document order, the \<^verbatim>\<open>src\<close> attributes of the \<^verbatim>\<open>img\<close> elements that have one and
  whose \<^verbatim>\<open>src\<close> parses as a URL reference, each resolved against the page's URL and
  written back as a string; an element with no \<^verbatim>\<open>src\<close>, or one that does not parse, is
  skipped.
\<close>

theorem C7_img_fallback:
  assumes "Find doc (TagAttr ''meta'' ''property'' ''og:image'') = []"
  shows "Images (extractMetadata L rawURL parsedURL doc) =
           map (\<lambda>u. url_String L (url_ResolveReference L parsedURL u))
             (List.map_filter (url_Parse L)
                (List.map_filter (\<lambda>s. Attr [s] ''src'') (Find doc (Tag ''img''))))"
  using assms by (simp add: Images_extractMetadata)

theorem C7_img_fallback_witness:
  "Images (extractMetadata (sampleLib pageServed pageWithImgs) ''https://x.test/p'' pageURL
             pageWithImgs)
     = [''https://x.test/a.png'', ''https://x.test/b.png'']"
proof -
  have f: "Find pageWithImgs (TagAttr ''meta'' ''property'' ''og:image'') = []"
    by (simp add: pageWithImgs_def Find_def)
  from C7_img_fallback[OF f, of "sampleLib pageServed pageWithImgs" "''https://x.test/p''" pageURL]
  show ?thesis
    by (simp add: find_img_pageWithImgs sampleLib_def pageURL_def emptyURL_def)
qed

text \<open>
  C10: for a document in which some \<^verbatim>\<open>og:image\<close> meta tag has a \<^verbatim>\<open>content\<close> attribute, the
  images are the \<^verbatim>\<open>content\<close> values of the \<^verbatim>\<open>og:image\<close> tags that have one, in document
  order and unchanged, an empty value included; nothing comes from the \<^verbatim>\<open>img\<close> elements.
\<close>

theorem C10_og_images_verbatim:
  assumes "\<exists>n \<in> set (Find doc (TagAttr ''meta'' ''property'' ''og:image'')).
             Attr [n] ''content'' \<noteq> None"
  shows "Images (extractMetadata L rawURL parsedURL doc) =
           List.map_filter (\<lambda>n. Attr [n] ''content'')
             (Find doc (TagAttr ''meta'' ''property'' ''og:image''))"
proof -
  from assms obtain n c where n: "n \<in> set (Find doc (TagAttr ''meta'' ''property'' ''og:image''))"
    and c: "Attr [n] ''content'' = Some c" by auto
  have "c \<in> set (List.map_filter (\<lambda>n. Attr [n] ''content'')
             (Find doc (TagAttr ''meta'' ''property'' ''og:image'')))"
    using n c by (force simp add: List.map_filter_def)
  then have "List.map_filter (\<lambda>n. Attr [n] ''content'')
             (Find doc (TagAttr ''meta'' ''property'' ''og:image'')) \<noteq> []"
    by auto
  then show ?thesis by (simp add: Images_extractMetadata)
qed

theorem C10_og_images_verbatim_witness:
  "Find pageWithOgImages (Tag ''img'') = [ElementNode ''img'' [(''src'', ''/a.png'')] []]
   \<and> Images (extractMetadata (sampleLib pageServed pageWithOgImages) ''https://x.test/p'' pageURL
             pageWithOgImages)
     = ['''', ''/img/logo.png'']"
proof
  show "Find pageWithOgImages (Tag ''img'') = [ElementNode ''img'' [(''src'', ''/a.png'')] []]"
    by (simp add: pageWithOgImages_def Find_def)
  have h: "\<exists>n \<in> set (Find pageWithOgImages (TagAttr ''meta'' ''property'' ''og:image'')).
             Attr [n] ''content'' \<noteq> None"
    by (simp add: find_og_pageWithOgImages)
  from C10_og_images_verbatim[OF h, of "sampleLib pageServed pageWithOgImages"
         "''https://x.test/p''" pageURL]
  show "Images (extractMetadata (sampleLib pageServed pageWithOgImages) ''https://x.test/p''
          pageURL pageWithOgImages) = ['''', ''/img/logo.png'']"
    by (simp add: find_og_pageWithOgImages)
qed

section \<open>The record of a successful resolution\<close>

text \<open>
  A YouTube URL whose oEmbed request is answered with status 200 and the JSON object
  \<^verbatim>\<open>{}\<close>: every field of the decoded answer is empty, and the handler answers 200 with an
  empty page name.
\<close>

theorem C2_empty_page_name_counterexample:
  "getMetadataHandler (sampleLib (net (Response 200 ''{}'') TransportError TransportError) [])
       '''' ''https://www.youtube.com/watch?v=abc''
     = ((200, MetadataJSON \<lparr>URL = ''https://www.youtube.com/watch?v=abc'', PageName = '''',
                            Title = '''', Description = '''', Images = ['''']\<rparr>),
        [OEmbedGet ''https://www.youtube.com/oembed?url=https%3A%2F%2Fwww.youtube.com%2Fwatch%3Fv%3Dabc&format=json''])"
  by (simp add: sample_defs service_defs)

text \<open>
  C2, as the code has it: when the handler answers 200 with a record, the request's URL is
  not empty and at least one outbound call was made; the record's url is that URL when the
  record comes from the oEmbed call or from the generic HTML path, and the video ID taken
  from the URL when it comes from the Data API; on the generic path the page name is not
  empty whenever the parsed URL has a host. The provider clients copy the page name from
  the answer as it is.
\<close>

theorem C2_url_and_page_name:
  assumes ok: "getMetadataHandler L ytAPIKey rawURL = ((200, MetadataJSON m), calls)"
      and p: "url_ParseRequestURI L rawURL = Some parsedURL"
  shows "rawURL \<noteq> '''' \<and> calls \<noteq> [] \<and>
         (case last calls of
            OEmbedGet c \<Rightarrow> URL m = rawURL
          | DataAPIGet c \<Rightarrow> URL m = extractYouTubeID L parsedURL
          | GenericGet c \<Rightarrow>
              URL m = rawURL \<and> (Host parsedURL \<noteq> '''' \<longrightarrow> PageName m \<noteq> ''''))"
proof -
  from handler_ok_cases[OF ok p]
  have raw: "rawURL \<noteq> ''''"
    and cases: "(fetchYouTubeOEmbed L rawURL [] = (Inr m, calls)
                   \<and> calls = [OEmbedGet (oeURL L rawURL)])
      \<or> (ytAPIKey \<noteq> '''' \<and>
          fetchYouTubeDataAPI L (extractYouTubeID L parsedURL) ytAPIKey
              [OEmbedGet (oeURL L rawURL)] = (Inr m, calls)
          \<and> calls = [OEmbedGet (oeURL L rawURL),
                      DataAPIGet (apiURL (extractYouTubeID L parsedURL) ytAPIKey)])
      \<or> (\<exists>pre. genericScrape L rawURL parsedURL pre = ((200, MetadataJSON m), calls)
             \<and> calls = pre @ [GenericGet (url_String L parsedURL)])"
    by blast+
  from cases show ?thesis
  proof (elim disjE conjE exE)
    assume f: "fetchYouTubeOEmbed L rawURL [] = (Inr m, calls)"
       and c: "calls = [OEmbedGet (oeURL L rawURL)]"
    from fetchYouTubeOEmbed_Inr[OF f] have "URL m = rawURL" by auto
    with raw c show ?thesis by simp
  next
    assume f: "fetchYouTubeDataAPI L (extractYouTubeID L parsedURL) ytAPIKey
              [OEmbedGet (oeURL L rawURL)] = (Inr m, calls)"
       and c: "calls = [OEmbedGet (oeURL L rawURL),
                      DataAPIGet (apiURL (extractYouTubeID L parsedURL) ytAPIKey)]"
    from fetchYouTubeDataAPI_Inr[OF f] have "URL m = extractYouTubeID L parsedURL" by auto
    with raw c show ?thesis by simp
  next
    fix pre
    assume g: "genericScrape L rawURL parsedURL pre = ((200, MetadataJSON m), calls)"
       and c: "calls = pre @ [GenericGet (url_String L parsedURL)]"
    from genericScrape_ok[OF g] obtain doc where m: "m = extractMetadata L rawURL parsedURL doc"
      by auto
    have u: "URL m = rawURL" by (simp add: m URL_extractMetadata)
    have n: "Host parsedURL \<noteq> '''' \<longrightarrow> PageName m \<noteq> ''''"
      by (simp add: m PageName_extractMetadata)
    from raw c u n show ?thesis by simp
  qed
qed

theorem C2_url_and_page_name_witness:
  "getMetadataHandler (sampleLib pageServed pageWithImgs) '''' ''https://x.test/p''
     = ((200, MetadataJSON \<lparr>URL = ''https://x.test/p'', PageName = ''x.test'',
           Title = ''Pictures'', Description = '''',
           Images = [''https://x.test/a.png'', ''https://x.test/b.png'']\<rparr>),
        [GenericGet ''https://x.test/p''])
   \<and> PageName (extractMetadata (sampleLib pageServed pageWithImgs) ''https://x.test/p'' pageURL
        pageWithImgs) \<noteq> ''''"
proof -
  let ?L = "sampleLib pageServed pageWithImgs"
  let ?m = "extractMetadata ?L ''https://x.test/p'' pageURL pageWithImgs"
  have m: "?m = \<lparr>URL = ''https://x.test/p'', PageName = ''x.test'',
           Title = ''Pictures'', Description = '''',
           Images = [''https://x.test/a.png'', ''https://x.test/b.png'']\<rparr>"
    by (simp add: sample_defs service_defs)
  have ok: "getMetadataHandler ?L '''' ''https://x.test/p''
              = ((200, MetadataJSON ?m), [GenericGet ''https://x.test/p''])"
    by (simp add: getMetadataHandler_def genericScrape_def isYouTubeURL_def sampleLib_def
                  pageServed_def net_def pageURL_def emptyURL_def)
  have p: "url_ParseRequestURI ?L ''https://x.test/p'' = Some pageURL"
    by (simp add: sampleLib_def)
  have h: "Host pageURL \<noteq> ''''" by (simp add: pageURL_def emptyURL_def)
  from C2_url_and_page_name[OF ok p] h have "PageName ?m \<noteq> ''''" by simp
  with ok m show ?thesis by simp
qed

text \<open>
  A page whose \<^verbatim>\<open>og:image\<close> tags carry an empty content and the relative reference
  \<^verbatim>\<open>/img/logo.png\<close>: the handler answers 200 with exactly these two strings as images, and
  neither is an absolute URL.
\<close>

theorem C3_relative_image_counterexample:
  "getMetadataHandler (sampleLib pageServed pageWithOgImages) '''' ''https://x.test/p''
     = ((200, MetadataJSON \<lparr>URL = ''https://x.test/p'', PageName = ''x.test'', Title = '''',
                            Description = '''', Images = ['''', ''/img/logo.png'']\<rparr>),
        [GenericGet ''https://x.test/p''])
   \<and> \<not> absolute_url ''/img/logo.png''
   \<and> \<not> absolute_url ''''"
  by (simp add: absolute_url_def sample_defs service_defs)

text \<open>
  C3, as the code has it: the images of a successfully resolved record are the strings
  found, in the order they were found, and are not checked to be absolute URLs: from the
  oEmbed call the one thumbnail URL of the answer; from the Data API the one URL of the
  thumbnail keyed \<^verbatim>\<open>high\<close> of the first item, or the empty string; from a page the
  \<^verbatim>\<open>content\<close> values of its \<^verbatim>\<open>og:image\<close> tags in document order, unchanged, or else, when
  there is none, the parsable \<^verbatim>\<open>src\<close> values of its \<^verbatim>\<open>img\<close> elements in document order,
  each resolved against the page's URL.
\<close>

theorem C3_images_in_discovery_order:
  assumes ok: "getMetadataHandler L ytAPIKey rawURL = ((200, MetadataJSON m), calls)"
      and p: "url_ParseRequestURI L rawURL = Some parsedURL"
  shows "calls \<noteq> [] \<and>
         (case last calls of
            OEmbedGet c \<Rightarrow>
              (\<exists>b oe. http_Do L (OEmbedGet c) = Response 200 b
                 \<and> json_Decode_oEmbed L b = Some oe
                 \<and> Images m = [oe_ThumbnailURL oe])
          | DataAPIGet c \<Rightarrow>
              (\<exists>b data it its. http_Do L (DataAPIGet c) = Response 200 b
                 \<and> json_Decode_youtube L b = Some data \<and> Items data = it # its
                 \<and> Images m = [case snip_Thumbnails (Snippet it) ''high'' of
                                  None \<Rightarrow> '''' | Some t \<Rightarrow> thumb_URL t])
          | GenericGet c \<Rightarrow>
              (\<exists>code b doc. http_Do L (GenericGet c) = Response code b
                 \<and> goquery_NewDocumentFromReader L b = Some doc
                 \<and> Images m =
                     (if List.map_filter (\<lambda>s. Attr [s] ''content'')
                           (Find doc (TagAttr ''meta'' ''property'' ''og:image'')) = []
                      then map (\<lambda>r. url_String L (url_ResolveReference L parsedURL r))
                             (List.map_filter (url_Parse L)
                                (List.map_filter (\<lambda>s. Attr [s] ''src'')
                                   (Find doc (Tag ''img''))))
                      else List.map_filter (\<lambda>s. Attr [s] ''content'')
                             (Find doc (TagAttr ''meta'' ''property'' ''og:image'')))))"
proof -
  from handler_ok_cases[OF ok p]
  have cases: "(fetchYouTubeOEmbed L rawURL [] = (Inr m, calls)
                   \<and> calls = [OEmbedGet (oeURL L rawURL)])
      \<or> (ytAPIKey \<noteq> '''' \<and>
          fetchYouTubeDataAPI L (extractYouTubeID L parsedURL) ytAPIKey
              [OEmbedGet (oeURL L rawURL)] = (Inr m, calls)
          \<and> calls = [OEmbedGet (oeURL L rawURL),
                      DataAPIGet (apiURL (extractYouTubeID L parsedURL) ytAPIKey)])
      \<or> (\<exists>pre. genericScrape L rawURL parsedURL pre = ((200, MetadataJSON m), calls)
             \<and> calls = pre @ [GenericGet (url_String L parsedURL)])"
    by blast
  from cases show ?thesis
  proof (elim disjE conjE exE)
    assume f: "fetchYouTubeOEmbed L rawURL [] = (Inr m, calls)"
       and c: "calls = [OEmbedGet (oeURL L rawURL)]"
    from fetchYouTubeOEmbed_Inr[OF f] obtain b oe where
      "http_Do L (OEmbedGet (oeURL L rawURL)) = Response 200 b"
      "json_Decode_oEmbed L b = Some oe" "Images m = [oe_ThumbnailURL oe]"
      by auto
    with c show ?thesis by auto
  next
    assume f: "fetchYouTubeDataAPI L (extractYouTubeID L parsedURL) ytAPIKey
              [OEmbedGet (oeURL L rawURL)] = (Inr m, calls)"
       and c: "calls = [OEmbedGet (oeURL L rawURL),
                      DataAPIGet (apiURL (extractYouTubeID L parsedURL) ytAPIKey)]"
    from fetchYouTubeDataAPI_Inr[OF f] obtain b data it its where
      "http_Do L (DataAPIGet (apiURL (extractYouTubeID L parsedURL) ytAPIKey)) = Response 200 b"
      "json_Decode_youtube L b = Some data" "Items data = it # its"
      "Images m = [case snip_Thumbnails (Snippet it) ''high'' of
                     None \<Rightarrow> '''' | Some t \<Rightarrow> thumb_URL t]"
      by auto
    with c show ?thesis by auto
  next
    fix pre
    assume g: "genericScrape L rawURL parsedURL pre = ((200, MetadataJSON m), calls)"
       and c: "calls = pre @ [GenericGet (url_String L parsedURL)]"
    from genericScrape_ok[OF g] obtain code b doc where
      h: "http_Do L (GenericGet (url_String L parsedURL)) = Response code b"
      and d: "goquery_NewDocumentFromReader L b = Some doc"
      and m: "m = extractMetadata L rawURL parsedURL doc"
      by auto
    from c h d show ?thesis
      by (auto simp add: m Images_extractMetadata)
  qed
qed

theorem C3_images_in_discovery_order_witness:
  "getMetadataHandler (sampleLib pageServed pageWithImgs) '''' ''https://x.test/p''
     = ((200, MetadataJSON (extractMetadata (sampleLib pageServed pageWithImgs)
                              ''https://x.test/p'' pageURL pageWithImgs)),
        [GenericGet ''https://x.test/p''])
   \<and> Images (extractMetadata (sampleLib pageServed pageWithImgs) ''https://x.test/p'' pageURL
               pageWithImgs)
     = [''https://x.test/a.png'', ''https://x.test/b.png'']"
proof -
  let ?L = "sampleLib pageServed pageWithImgs"
  let ?m = "extractMetadata ?L ''https://x.test/p'' pageURL pageWithImgs"
  have ok: "getMetadataHandler ?L '''' ''https://x.test/p''
              = ((200, MetadataJSON ?m), [GenericGet ''https://x.test/p''])"
    by (simp add: getMetadataHandler_def genericScrape_def isYouTubeURL_def sampleLib_def
                  pageServed_def net_def pageURL_def emptyURL_def)
  have p: "url_ParseRequestURI ?L ''https://x.test/p'' = Some pageURL"
    by (simp add: sampleLib_def)
  have og: "Find pageWithImgs (TagAttr ''meta'' ''property'' ''og:image'') = []"
    by (simp add: pageWithImgs_def Find_def)
  have d: "goquery_NewDocumentFromReader ?L = (\<lambda>b. Some pageWithImgs)"
    by (simp add: sampleLib_def)
  from C3_images_in_discovery_order[OF ok p]
  have "Images ?m = map (\<lambda>r. url_String ?L (url_ResolveReference ?L pageURL r))
                      (List.map_filter (url_Parse ?L)
                         (List.map_filter (\<lambda>s. Attr [s] ''src'')
                            (Find pageWithImgs (Tag ''img''))))"
    by (auto simp add: d og)
  then have "Images ?m = [''https://x.test/a.png'', ''https://x.test/b.png'']"
    by (simp add: find_img_pageWithImgs sampleLib_def pageURL_def emptyURL_def)
  with ok show ?thesis by simp
qed

end
